theory Spec2Isabelle
  imports Complex_Main
begin

section \<open>Data model of \<open>sistema_bancario_poo2.py\<close>\<close>

text \<open>
  Amounts and balances are Python floats in the source (\<open>self._saldo = 0.0\<close>,
  \<open>float(valor_str)\<close>). They are modelled as real numbers: comparisons and the two
  updates \<open>+=\<close> and \<open>-=\<close> are exact. Rounding and the IEEE special values are not
  represented.
\<close>

subsection \<open>Timestamps\<close>

text \<open>
  \<open>datetime.datetime.now()\<close> reads the clock. The clock reading is an explicit argument
  of every operation that constructs a \<open>Transacao\<close>.
\<close>

record datetime =
  year :: nat
  month :: nat
  day :: nat
  hour :: nat
  minute :: nat
  second :: nat
  microsecond :: nat

definition digit_char :: "nat \<Rightarrow> char" where
  "digit_char n = char_of (48 + n)"

fun decimal :: "nat \<Rightarrow> string" where
  "decimal n = (if n < 10 then [digit_char n] else decimal (n div 10) @ [digit_char (n mod 10)])"

declare decimal.simps [simp del]

definition pad2 :: "nat \<Rightarrow> string" where
  "pad2 n = (if n < 10 then CHR ''0'' # decimal n else decimal n)"

text \<open>\<open>strftime("%d-%m-%Y %H:%M:%S")\<close>: \<open>%d %m %H %M %S\<close> are zero-padded to two digits,
  \<open>%Y\<close> is the year in decimal.\<close>

definition strftime :: "datetime \<Rightarrow> string" where
  "strftime d =
     pad2 (day d) @ ''-'' @ pad2 (month d) @ ''-'' @ decimal (year d) @ '' '' @
     pad2 (hour d) @ '':'' @ pad2 (minute d) @ '':'' @ pad2 (second d)"

subsection \<open>Transacao, Deposito, Saque\<close>

text \<open>
  \<open>Transacao.__init__\<close> stores \<open>valor\<close> and the clock reading; the two subclasses add
  nothing. A transaction is the class tag with these two fields.
\<close>

datatype transacao = Deposito real datetime | Saque real datetime

fun valor :: "transacao \<Rightarrow> real" where
  "valor (Deposito v d) = v"
| "valor (Saque v d) = v"

fun data :: "transacao \<Rightarrow> datetime" where
  "data (Deposito v d) = d"
| "data (Saque v d) = d"

text \<open>\<open>transacao.__class__.__name__\<close>\<close>

fun class_name :: "transacao \<Rightarrow> string" where
  "class_name (Deposito v d) = ''Deposito''"
| "class_name (Saque v d) = ''Saque''"

subsection \<open>Historico\<close>

text \<open>One dictionary of \<open>Historico._transacoes\<close>, with the keys
  \<open>"tipo"\<close>, \<open>"valor"\<close> and \<open>"data"\<close>.\<close>

record entry =
  e_tipo :: string
  e_valor :: real
  e_data :: string

type_synonym historico = "entry list"

definition adicionar_transacao :: "historico \<Rightarrow> transacao \<Rightarrow> historico" where
  "adicionar_transacao h t =
     h @ [\<lparr>e_tipo = class_name t, e_valor = valor t, e_data = strftime (data t)\<rparr>]"

subsection \<open>Conta\<close>

text \<open>\<open>cliente\<close> is the reference to the owning \<open>Cliente\<close> object.\<close>

record conta =
  saldo :: real
  numero :: int
  agencia :: string
  cliente :: nat
  historico :: historico

definition Conta_init :: "int \<Rightarrow> nat \<Rightarrow> conta" where
  "Conta_init n c = \<lparr>saldo = 0, numero = n, agencia = ''0001'', cliente = c, historico = []\<rparr>"

text \<open>
  Every failing branch of the source prints its own message and returns \<open>False\<close>; the
  error value names the message. \<open>Inr ()\<close> is the return value \<open>True\<close>. The account is
  returned with the result, since the methods mutate \<open>self\<close>.
\<close>

datatype error = InvalidAmount | InsufficientFunds | LimitExceeded | WithdrawalCapReached

definition Conta_sacar ::
  "'a conta_scheme \<Rightarrow> real \<Rightarrow> datetime \<Rightarrow> (error + unit) \<times> 'a conta_scheme" where
  "Conta_sacar self v now =
     (if v \<le> 0 then (Inl InvalidAmount, self)
      else if v > saldo self then (Inl InsufficientFunds, self)
      else (Inr (),
            self\<lparr>saldo := saldo self - v,
                 historico := adicionar_transacao (historico self) (Saque v now)\<rparr>))"

definition Conta_depositar ::
  "'a conta_scheme \<Rightarrow> real \<Rightarrow> datetime \<Rightarrow> (error + unit) \<times> 'a conta_scheme" where
  "Conta_depositar self v now =
     (if v \<le> 0 then (Inl InvalidAmount, self)
      else (Inr (),
            self\<lparr>saldo := saldo self + v,
                 historico := adicionar_transacao (historico self) (Deposito v now)\<rparr>))"

subsection \<open>ContaCorrente\<close>

record conta_corrente = conta +
  limite :: real
  limite_saques :: int
  numero_saques :: int

definition ContaCorrente_init :: "int \<Rightarrow> nat \<Rightarrow> real \<Rightarrow> int \<Rightarrow> conta_corrente" where
  "ContaCorrente_init n c lmt cap =
     \<lparr>saldo = 0, numero = n, agencia = ''0001'', cliente = c, historico = [],
      limite = lmt, limite_saques = cap, numero_saques = 0\<rparr>"

text \<open>\<open>ContaCorrente.nova_conta(cliente, numero)\<close> uses the defaults of the constructor.\<close>

definition nova_conta :: "nat \<Rightarrow> int \<Rightarrow> conta_corrente" where
  "nova_conta c n = ContaCorrente_init n c 500 3"

definition ContaCorrente_sacar ::
  "conta_corrente \<Rightarrow> real \<Rightarrow> datetime \<Rightarrow> (error + unit) \<times> conta_corrente" where
  "ContaCorrente_sacar self v now =
     (let excedeu_limite = v > limite self;
          excedeu_saques = numero_saques self \<ge> limite_saques self
      in if excedeu_limite then (Inl LimitExceeded, self)
         else if excedeu_saques then (Inl WithdrawalCapReached, self)
         else (case Conta_sacar self v now of
                 (Inr u, self') \<Rightarrow> (Inr (), self'\<lparr>numero_saques := numero_saques self' + 1\<rparr>)
               | (Inl e, self') \<Rightarrow> (Inl e, self')))"

text \<open>\<open>ContaCorrente\<close> does not override \<open>depositar\<close>: the inherited method runs on the
  extended object.\<close>

definition ContaCorrente_depositar ::
  "conta_corrente \<Rightarrow> real \<Rightarrow> datetime \<Rightarrow> (error + unit) \<times> conta_corrente" where
  "ContaCorrente_depositar self v now = Conta_depositar self v now"

subsection \<open>Dynamic dispatch and \<open>registrar\<close>\<close>

text \<open>An account object is of class \<open>Conta\<close> or \<open>ContaCorrente\<close>; a method call picks
  the method of the object's class.\<close>

datatype account = Conta conta | ContaCorrente conta_corrente

fun sacar :: "account \<Rightarrow> real \<Rightarrow> datetime \<Rightarrow> (error + unit) \<times> account" where
  "sacar (Conta c) v now = (case Conta_sacar c v now of (r, c') \<Rightarrow> (r, Conta c'))"
| "sacar (ContaCorrente c) v now =
     (case ContaCorrente_sacar c v now of (r, c') \<Rightarrow> (r, ContaCorrente c'))"

fun depositar :: "account \<Rightarrow> real \<Rightarrow> datetime \<Rightarrow> (error + unit) \<times> account" where
  "depositar (Conta c) v now = (case Conta_depositar c v now of (r, c') \<Rightarrow> (r, Conta c'))"
| "depositar (ContaCorrente c) v now =
     (case ContaCorrente_depositar c v now of (r, c') \<Rightarrow> (r, ContaCorrente c'))"

fun saldo_of :: "account \<Rightarrow> real" where
  "saldo_of (Conta c) = saldo c"
| "saldo_of (ContaCorrente c) = saldo c"

fun historico_of :: "account \<Rightarrow> historico" where
  "historico_of (Conta c) = historico c"
| "historico_of (ContaCorrente c) = historico c"

text \<open>\<open>Deposito.registrar\<close> and \<open>Saque.registrar\<close>. The last argument is the clock
  reading during the call; the transaction carries its own, older one.\<close>

fun registrar :: "transacao \<Rightarrow> account \<Rightarrow> datetime \<Rightarrow> (error + unit) \<times> account" where
  "registrar (Deposito v d) conta now = depositar conta v now"
| "registrar (Saque v d) conta now = sacar conta v now"

subsection \<open>Sequences of calls\<close>

text \<open>A call of \<open>depositar\<close> or \<open>sacar\<close> on an account object, with its amount and the
  clock reading during the call.\<close>

datatype call = CallDepositar real datetime | CallSacar real datetime

fun step :: "account \<Rightarrow> call \<Rightarrow> (error + unit) \<times> account" where
  "step a (CallDepositar v t) = depositar a v t"
| "step a (CallSacar v t) = sacar a v t"


text \<open>The return values of the calls, in order.\<close>

fun results :: "account \<Rightarrow> call list \<Rightarrow> (error + unit) list" where
  "results a [] = []"
| "results a (c # cs) = fst (step a c) # results (snd (step a c)) cs"






text \<open>The same for a \<open>ContaCorrente\<close> object alone, to read its counter.\<close>

fun step_cc :: "conta_corrente \<Rightarrow> call \<Rightarrow> (error + unit) \<times> conta_corrente" where
  "step_cc a (CallDepositar v t) = ContaCorrente_depositar a v t"
| "step_cc a (CallSacar v t) = ContaCorrente_sacar a v t"

fun run_cc :: "conta_corrente \<Rightarrow> call list \<Rightarrow> conta_corrente" where
  "run_cc a [] = a"
| "run_cc a (c # cs) = run_cc (snd (step_cc a c)) cs"

fun is_saque_ok :: "call \<Rightarrow> error + unit \<Rightarrow> nat" where
  "is_saque_ok (CallSacar v t) (Inr u) = 1"
| "is_saque_ok c r = 0"

text \<open>The number of successful withdrawals of a sequence of calls.\<close>

fun successful_saques :: "conta_corrente \<Rightarrow> call list \<Rightarrow> nat" where
  "successful_saques a [] = 0"
| "successful_saques a (c # cs) =
     is_saque_ok c (fst (step_cc a c)) + successful_saques (snd (step_cc a c)) cs"




text \<open>What a transaction does to the balance when the account accepts it.\<close>

fun signed_amount :: "transacao \<Rightarrow> real" where
  "signed_amount (Deposito v d) = v"
| "signed_amount (Saque v d) = - v"

section \<open>\<open>validar_cpf\<close>\<close>

text \<open>
  A Python \<open>str\<close> is a sequence of code points; a \<open>char\<close> is the code point of the same
  number, so the model covers the strings over U+0000 to U+00FF.

  \<open>str.isdigit\<close> holds for the characters of numeric type Digit or Decimal: below U+0100
  these are \<open>0\<close> to \<open>9\<close> and the superscripts U+00B2, U+00B3 and U+00B9. \<open>int\<close> of a
  one-character string accepts a decimal digit only, and raises \<open>ValueError\<close> on every
  other character, the three superscripts included.
\<close>

datatype py_error = ValueError

definition isdigit :: "char \<Rightarrow> bool" where
  "isdigit c = (let n = (of_char c :: nat)
                in (48 \<le> n \<and> n \<le> 57) \<or> n = 178 \<or> n = 179 \<or> n = 185)"

definition int_py :: "char \<Rightarrow> py_error + int" where
  "int_py c = (let n = (of_char c :: nat)
               in if 48 \<le> n \<and> n \<le> 57 then Inr (int n - 48) else Inl ValueError)"

text \<open>The loop \<open>for i in range(..): soma += int(cpf[i]) * (w - i)\<close>, over the list of the
  indices still to visit.\<close>

fun soma_loop :: "string \<Rightarrow> int \<Rightarrow> nat list \<Rightarrow> int \<Rightarrow> py_error + int" where
  "soma_loop cpf w [] soma = Inr soma"
| "soma_loop cpf w (i # ixs) soma =
     (case int_py (cpf ! i) of
        Inl e \<Rightarrow> Inl e
      | Inr d \<Rightarrow> soma_loop cpf w ixs (soma + d * (w - int i)))"

definition validar_cpf :: "string \<Rightarrow> py_error + bool" where
  "validar_cpf cpf0 =
     (let cpf = filter isdigit cpf0
      in if length cpf \<noteq> 11 then Inr False
         else if cpf = replicate 11 (cpf ! 0) then Inr False
         else (case soma_loop cpf 10 [0..<9] 0 of
                 Inl e \<Rightarrow> Inl e
               | Inr soma \<Rightarrow>
                   (let resto = soma mod 11;
                        digito1 = (if resto < 2 then 0 else 11 - resto)
                    in (case int_py (cpf ! 9) of
                          Inl e \<Rightarrow> Inl e
                        | Inr d9 \<Rightarrow>
                            if digito1 \<noteq> d9 then Inr False
                            else (case soma_loop cpf 11 [0..<10] 0 of
                                    Inl e \<Rightarrow> Inl e
                                  | Inr soma2 \<Rightarrow>
                                      (let resto2 = soma2 mod 11;
                                           digito2 = (if resto2 < 2 then 0 else 11 - resto2)
                                       in (case int_py (cpf ! 10) of
                                             Inl e \<Rightarrow> Inl e
                                           | Inr d10 \<Rightarrow>
                                               if digito2 \<noteq> d10 then Inr False
                                               else Inr True)))))))"

subsection \<open>The validator as the specification words it\<close>

text \<open>
  The specification's algorithm, on the decimal digits \<open>0\<close> to \<open>9\<close>: strip the other
  characters; reject a length other than 11 and eleven identical digits; the expected
  check digit of a weighted sum is 0 if the remainder modulo 11 is below 2, else 11 minus
  the remainder; the weights of the first sum are 10 down to 2 over the digits 0 to 8, the
  weights of the second 11 down to 2 over the digits 0 to 9.
\<close>

definition is_decimal :: "char \<Rightarrow> bool" where
  "is_decimal c = (48 \<le> (of_char c :: nat) \<and> (of_char c :: nat) \<le> 57)"

definition digit_value :: "char \<Rightarrow> int" where
  "digit_value c = int (of_char c) - 48"

definition expected_digit :: "int \<Rightarrow> int" where
  "expected_digit s = (if s mod 11 < 2 then 0 else 11 - s mod 11)"

definition weighted_sum :: "int list \<Rightarrow> int list \<Rightarrow> int" where
  "weighted_sum ds ws = sum_list (map2 (*) ds ws)"

definition validate_spec :: "string \<Rightarrow> bool" where
  "validate_spec candidate =
     (let ds = map digit_value (filter is_decimal candidate)
      in length ds = 11 \<and> ds \<noteq> replicate 11 (ds ! 0) \<and>
         expected_digit (weighted_sum (take 9 ds) [10, 9, 8, 7, 6, 5, 4, 3, 2]) = ds ! 9 \<and>
         expected_digit (weighted_sum (take 10 ds) [11, 10, 9, 8, 7, 6, 5, 4, 3, 2]) = ds ! 10)"

subsection \<open>Concrete inputs\<close>

text \<open>Two clock readings five seconds apart, and the calls of a short session.\<close>

definition clock_a :: datetime where
  "clock_a = \<lparr>year = 2024, month = 1, day = 5, hour = 3, minute = 4, second = 9,
              microsecond = 0\<rparr>"

definition clock_b :: datetime where
  "clock_b = \<lparr>year = 2024, month = 1, day = 5, hour = 3, minute = 4, second = 14,
              microsecond = 0\<rparr>"


definition three_saques :: "call list" where
  "three_saques = [CallDepositar 1000 clock_a, CallSacar 100 clock_b, CallSacar 100 clock_b,
                   CallSacar 100 clock_b]"


section \<open>Single calls\<close>





text \<open>
  C4. \<open>ContaCorrente.sacar\<close> checks in this order: an amount above \<open>limite\<close> fails with
  \<open>LimitExceeded\<close>, whatever the balance and the counter; otherwise a counter that has
  reached \<open>limite_saques\<close> fails with \<open>WithdrawalCapReached\<close>; otherwise the call is
  \<open>Conta.sacar\<close>: its error is returned as it is and the counter keeps its value, its
  success adds one to the counter.
\<close>

theorem current_account_sacar_order:
  "(v > limite self \<longrightarrow> ContaCorrente_sacar self v now = (Inl LimitExceeded, self)) \<and>
   (v \<le> limite self \<and> numero_saques self \<ge> limite_saques self \<longrightarrow>
      ContaCorrente_sacar self v now = (Inl WithdrawalCapReached, self)) \<and>
   (v \<le> limite self \<and> numero_saques self < limite_saques self \<longrightarrow>
      (\<forall>e. fst (Conta_sacar self v now) = Inl e \<longrightarrow>
            ContaCorrente_sacar self v now = (Inl e, self)) \<and>
      (fst (Conta_sacar self v now) = Inr () \<longrightarrow>
            ContaCorrente_sacar self v now =
              (Inr (), (snd (Conta_sacar self v now))\<lparr>numero_saques := numero_saques self + 1\<rparr>)))"
  by (auto simp add: ContaCorrente_sacar_def Conta_sacar_def Let_def)

theorem current_account_sacar_order_witness:
  "ContaCorrente_sacar (nova_conta 0 1) 500.01 clock_a = (Inl LimitExceeded, nova_conta 0 1) \<and>
   ContaCorrente_sacar ((nova_conta 0 1)\<lparr>saldo := 9000\<rparr>) 500.01 clock_a =
     (Inl LimitExceeded, (nova_conta 0 1)\<lparr>saldo := 9000\<rparr>) \<and>
   ContaCorrente_sacar ((nova_conta 0 1)\<lparr>numero_saques := 3\<rparr>) 10 clock_a =
     (Inl WithdrawalCapReached, (nova_conta 0 1)\<lparr>numero_saques := 3\<rparr>) \<and>
   ContaCorrente_sacar (nova_conta 0 1) 10 clock_a = (Inl InsufficientFunds, nova_conta 0 1) \<and>
   fst (ContaCorrente_sacar ((nova_conta 0 1)\<lparr>saldo := 50\<rparr>) 10 clock_a) = Inr () \<and>
   numero_saques (snd (ContaCorrente_sacar ((nova_conta 0 1)\<lparr>saldo := 50\<rparr>) 10 clock_a)) = 1"
  using current_account_sacar_order [where self = "nova_conta 0 1" and v = "500.01" and now = clock_a]
    current_account_sacar_order [where self = "(nova_conta 0 1)\<lparr>saldo := 9000\<rparr>" and v = "500.01" and now = clock_a]
    current_account_sacar_order [where self = "(nova_conta 0 1)\<lparr>numero_saques := 3\<rparr>" and v = 10 and now = clock_a]
    current_account_sacar_order [where self = "nova_conta 0 1" and v = 10 and now = clock_a]
    current_account_sacar_order [where self = "(nova_conta 0 1)\<lparr>saldo := 50\<rparr>" and v = 10 and now = clock_a]
  by (simp add: nova_conta_def ContaCorrente_init_def Conta_sacar_def)

text \<open>
  C10. On a \<open>ContaCorrente\<close> whose counter has reached \<open>limite_saques\<close>, a withdrawal of an
  amount that is at most zero and at most \<open>limite\<close> fails with \<open>WithdrawalCapReached\<close>, not
  with \<open>InvalidAmount\<close>, which is what \<open>Conta.sacar\<close> alone reports for that amount.
\<close>

theorem capped_nonpositive_amount:
  assumes "limite_saques self \<le> numero_saques self" and "v \<le> 0" and "v \<le> limite self"
  shows "ContaCorrente_sacar self v now = (Inl WithdrawalCapReached, self) \<and>
         fst (ContaCorrente_sacar self v now) \<noteq> Inl InvalidAmount \<and>
         Conta_sacar self v now = (Inl InvalidAmount, self)"
  using assms by (simp add: ContaCorrente_sacar_def Conta_sacar_def Let_def)

theorem capped_nonpositive_amount_witness:
  "limite_saques (run_cc (nova_conta 0 1) three_saques) \<le>
     numero_saques (run_cc (nova_conta 0 1) three_saques) \<and>
   (0::real) \<le> 0 \<and> 0 \<le> limite (run_cc (nova_conta 0 1) three_saques) \<and>
   ContaCorrente_sacar (run_cc (nova_conta 0 1) three_saques) 0 clock_b =
     (Inl WithdrawalCapReached, run_cc (nova_conta 0 1) three_saques) \<and>
   Conta_sacar (run_cc (nova_conta 0 1) three_saques) 0 clock_b =
     (Inl InvalidAmount, run_cc (nova_conta 0 1) three_saques)"
proof -
  have numero: "numero_saques (run_cc (nova_conta 0 1) three_saques) = 3"
    by (simp add: three_saques_def nova_conta_def ContaCorrente_init_def Conta_sacar_def
        ContaCorrente_sacar_def ContaCorrente_depositar_def Conta_depositar_def Let_def)
  have cap: "limite_saques (run_cc (nova_conta 0 1) three_saques) = 3"
    by (simp add: three_saques_def nova_conta_def ContaCorrente_init_def Conta_sacar_def
        ContaCorrente_sacar_def ContaCorrente_depositar_def Conta_depositar_def Let_def)
  have lim: "limite (run_cc (nova_conta 0 1) three_saques) = 500"
    by (simp add: three_saques_def nova_conta_def ContaCorrente_init_def Conta_sacar_def
        ContaCorrente_sacar_def ContaCorrente_depositar_def Conta_depositar_def Let_def)
  have h1: "limite_saques (run_cc (nova_conta 0 1) three_saques) \<le>
              numero_saques (run_cc (nova_conta 0 1) three_saques)"
    using numero cap by simp
  have h2: "(0::real) \<le> 0" by simp
  have h3: "0 \<le> limite (run_cc (nova_conta 0 1) three_saques)"
    using lim by simp
  show ?thesis
    using h1 h2 h3 capped_nonpositive_amount [OF h1 h2 h3, of clock_b] by simp
qed

section \<open>Sequences of calls on one account\<close>







subsection \<open>The withdrawal counter\<close>

lemma step_cc_fields:
  "limite (snd (step_cc a c)) = limite a \<and> limite_saques (snd (step_cc a c)) = limite_saques a"
  by (cases c)
     (simp_all add: Conta_depositar_def Conta_sacar_def ContaCorrente_depositar_def
        ContaCorrente_sacar_def Let_def)

lemma step_cc_numero:
  "numero_saques (snd (step_cc a c)) = numero_saques a + int (is_saque_ok c (fst (step_cc a c)))"
  by (cases c)
     (simp_all add: Conta_depositar_def Conta_sacar_def ContaCorrente_depositar_def
        ContaCorrente_sacar_def Let_def)

lemma step_cc_bound:
  "numero_saques a \<le> limite_saques a \<Longrightarrow> numero_saques (snd (step_cc a c)) \<le> limite_saques a"
  by (cases c)
     (simp_all add: Conta_depositar_def Conta_sacar_def ContaCorrente_depositar_def
        ContaCorrente_sacar_def Let_def)

lemma run_cc_fields:
  "limite (run_cc a cs) = limite a \<and> limite_saques (run_cc a cs) = limite_saques a"
  by (induction cs arbitrary: a) (simp_all add: step_cc_fields)

lemma run_cc_numero:
  "numero_saques (run_cc a cs) = numero_saques a + int (successful_saques a cs)"
  by (induction cs arbitrary: a) (simp_all add: step_cc_numero)

lemma run_cc_bound:
  "numero_saques a \<le> limite_saques a \<Longrightarrow> numero_saques (run_cc a cs) \<le> limite_saques a"
proof (induction cs arbitrary: a)
  case Nil
  then show ?case by simp
next
  case (Cons c cs)
  have "numero_saques (snd (step_cc a c)) \<le> limite_saques (snd (step_cc a c))"
    using step_cc_bound [OF Cons.prems] step_cc_fields [of a c] by simp
  from Cons.IH [OF this] show ?case
    using step_cc_fields [of a c] by simp
qed

lemma run_cc_append: "run_cc a (cs @ ds) = run_cc (run_cc a cs) ds"
  by (induction cs arbitrary: a) simp_all

lemma capped_sacar:
  "limite_saques a \<le> numero_saques a \<Longrightarrow> v \<le> limite a \<Longrightarrow>
     ContaCorrente_sacar a v t = (Inl WithdrawalCapReached, a)"
  by (simp add: ContaCorrente_sacar_def Let_def)

text \<open>
  C5. Take a freshly created \<open>ContaCorrente\<close> with cap \<open>k\<close> and any sequence \<open>cs\<close> of
  calls on it. The counter \<open>numero_saques\<close> is the number of successful withdrawals so
  far; it never decreases when more calls \<open>ds\<close> follow; and it never exceeds a cap that
  is at least zero. Once \<open>cs\<close> holds exactly \<open>k\<close> successful withdrawals, then after any
  further calls every withdrawal of an amount within \<open>limite\<close> fails with
  \<open>WithdrawalCapReached\<close> and leaves the account as it was, and the counter stays at \<open>k\<close>.
\<close>

theorem withdrawal_cap:
  "numero_saques (run_cc (ContaCorrente_init n c l k) cs) =
     int (successful_saques (ContaCorrente_init n c l k) cs) \<and>
   numero_saques (run_cc (ContaCorrente_init n c l k) cs) \<le>
     numero_saques (run_cc (ContaCorrente_init n c l k) (cs @ ds)) \<and>
   (0 \<le> k \<longrightarrow> numero_saques (run_cc (ContaCorrente_init n c l k) cs) \<le> k) \<and>
   (int (successful_saques (ContaCorrente_init n c l k) cs) = k \<longrightarrow>
      (\<forall>ds v t. v \<le> l \<longrightarrow>
         ContaCorrente_sacar (run_cc (ContaCorrente_init n c l k) (cs @ ds)) v t =
           (Inl WithdrawalCapReached, run_cc (ContaCorrente_init n c l k) (cs @ ds)) \<and>
         numero_saques (run_cc (ContaCorrente_init n c l k) (cs @ ds)) = k))"
proof -
  let ?a = "ContaCorrente_init n c l k"
  have init: "numero_saques ?a = 0" "limite_saques ?a = k" "limite ?a = l"
    by (simp_all add: ContaCorrente_init_def)
  have count: "numero_saques (run_cc ?a xs) = int (successful_saques ?a xs)" for xs
    using run_cc_numero [of ?a xs] init by simp
  have bound: "numero_saques (run_cc ?a xs) \<le> k" if "0 \<le> k" for xs
    using run_cc_bound [of ?a xs] init that by simp
  have mono: "numero_saques (run_cc ?a xs) \<le> numero_saques (run_cc ?a (xs @ ys))" for xs ys
    using run_cc_numero [of "run_cc ?a xs" ys] by (simp add: run_cc_append)
  have stuck: "ContaCorrente_sacar (run_cc ?a (cs @ ys)) v t =
                 (Inl WithdrawalCapReached, run_cc ?a (cs @ ys)) \<and>
               numero_saques (run_cc ?a (cs @ ys)) = k"
    if full: "int (successful_saques ?a cs) = k" and v: "v \<le> l" for ys v t
  proof -
    from full have k: "0 \<le> k" by linarith
    have "k \<le> numero_saques (run_cc ?a (cs @ ys))"
      using mono [of cs ys] count [of cs] full by simp
    with bound [OF k, of "cs @ ys"] have eq: "numero_saques (run_cc ?a (cs @ ys)) = k" by simp
    have "limite_saques (run_cc ?a (cs @ ys)) \<le> numero_saques (run_cc ?a (cs @ ys))"
      using eq run_cc_fields [of ?a "cs @ ys"] init by simp
    moreover have "v \<le> limite (run_cc ?a (cs @ ys))"
      using v run_cc_fields [of ?a "cs @ ys"] init by simp
    ultimately show ?thesis
      using capped_sacar eq by blast
  qed
  show ?thesis
    using count [of cs] bound [of cs] mono [of cs ds] stuck by blast
qed

theorem withdrawal_cap_witness:
  "(0::int) \<le> 3 \<and>
   int (successful_saques (ContaCorrente_init 1 0 500 3) three_saques) = 3 \<and>
   numero_saques (run_cc (ContaCorrente_init 1 0 500 3) three_saques) = 3 \<and>
   ContaCorrente_sacar
       (run_cc (ContaCorrente_init 1 0 500 3) (three_saques @ [CallDepositar 5 clock_a]))
       10 clock_b =
     (Inl WithdrawalCapReached,
      run_cc (ContaCorrente_init 1 0 500 3) (three_saques @ [CallDepositar 5 clock_a])) \<and>
   numero_saques
       (run_cc (ContaCorrente_init 1 0 500 3) (three_saques @ [CallDepositar 5 clock_a])) = 3"
proof -
  have h: "(0::int) \<le> 3" by simp
  have full: "int (successful_saques (ContaCorrente_init 1 0 500 3) three_saques) = 3"
    by (simp add: three_saques_def ContaCorrente_init_def Conta_sacar_def
        ContaCorrente_sacar_def ContaCorrente_depositar_def Conta_depositar_def Let_def)
  have v: "(10::real) \<le> 500" by simp
  note w = withdrawal_cap [where n = 1 and c = 0 and l = 500 and k = 3 and cs = three_saques
      and ds = "[]"]
  from w full have count: "numero_saques (run_cc (ContaCorrente_init 1 0 500 3) three_saques) = 3"
    by simp
  from w full v have
    "ContaCorrente_sacar
         (run_cc (ContaCorrente_init 1 0 500 3) (three_saques @ [CallDepositar 5 clock_a]))
         10 clock_b =
       (Inl WithdrawalCapReached,
        run_cc (ContaCorrente_init 1 0 500 3) (three_saques @ [CallDepositar 5 clock_a])) \<and>
     numero_saques
         (run_cc (ContaCorrente_init 1 0 500 3) (three_saques @ [CallDepositar 5 clock_a])) = 3"
    by blast
  with h full count show ?thesis by blast
qed

subsection \<open>Deposits on a \<open>ContaCorrente\<close>\<close>





section \<open>Transactions and the history\<close>

lemma registrar_effect:
  "registrar tx a now = (r, a') \<Longrightarrow>
     (case r of
        Inl e \<Rightarrow> a' = a
      | Inr u \<Rightarrow> saldo_of a' = saldo_of a + signed_amount tx \<and>
                 historico_of a' = historico_of a @
                   [\<lparr>e_tipo = class_name tx, e_valor = valor tx, e_data = strftime now\<rparr>])"
  by (cases tx; cases a)
     (auto simp add: Conta_depositar_def Conta_sacar_def ContaCorrente_depositar_def
        ContaCorrente_sacar_def Let_def adicionar_transacao_def split: if_splits)

text \<open>
  C8. \<open>Deposito.registrar\<close> returns what \<open>depositar\<close> of the account returns, and
  \<open>Saque.registrar\<close> what \<open>sacar\<close> of the account returns, and the account they leave is
  the one the account's method leaves: \<open>registrar\<close> appends nothing of its own. A
  refused transaction leaves the account as it was; an accepted one appends exactly one
  entry and moves the balance by its amount.
\<close>

theorem registrar_delegates:
  "registrar (Deposito v d) a now = depositar a v now \<and>
   registrar (Saque v d) a now = sacar a v now \<and>
   (\<forall>e. fst (registrar tx a now) = Inl e \<longrightarrow> snd (registrar tx a now) = a) \<and>
   (fst (registrar tx a now) = Inr () \<longrightarrow>
      length (historico_of (snd (registrar tx a now))) = Suc (length (historico_of a)) \<and>
      saldo_of (snd (registrar tx a now)) = saldo_of a + signed_amount tx)"
  using registrar_effect [of tx a now "fst (registrar tx a now)" "snd (registrar tx a now)"]
  by (auto split: sum.splits)

theorem registrar_delegates_witness:
  "registrar (Saque 600 clock_a) (ContaCorrente (nova_conta 0 1)) clock_b =
     (Inl LimitExceeded, ContaCorrente (nova_conta 0 1)) \<and>
   fst (registrar (Deposito 1000 clock_a) (ContaCorrente (nova_conta 0 1)) clock_b) = Inr () \<and>
   length (historico_of
     (snd (registrar (Deposito 1000 clock_a) (ContaCorrente (nova_conta 0 1)) clock_b))) = 1 \<and>
   saldo_of (snd (registrar (Deposito 1000 clock_a) (ContaCorrente (nova_conta 0 1)) clock_b)) =
     1000"
proof -
  have f: "fst (registrar (Saque 600 clock_a) (ContaCorrente (nova_conta 0 1)) clock_b) =
             Inl LimitExceeded"
    by (simp add: nova_conta_def ContaCorrente_init_def Conta_init_def Conta_sacar_def
        ContaCorrente_sacar_def ContaCorrente_depositar_def Conta_depositar_def Let_def)
  have g: "fst (registrar (Deposito 1000 clock_a) (ContaCorrente (nova_conta 0 1)) clock_b) =
             Inr ()"
    by (simp add: nova_conta_def ContaCorrente_init_def Conta_init_def Conta_sacar_def
        ContaCorrente_sacar_def ContaCorrente_depositar_def Conta_depositar_def Let_def)
  have z: "historico_of (ContaCorrente (nova_conta 0 1)) = [] \<and>
           saldo_of (ContaCorrente (nova_conta 0 1)) = 0"
    by (simp add: nova_conta_def ContaCorrente_init_def Conta_init_def Conta_sacar_def
        ContaCorrente_sacar_def ContaCorrente_depositar_def Conta_depositar_def Let_def)
  show ?thesis
    using registrar_delegates [where tx = "Saque 600 clock_a"
        and a = "ContaCorrente (nova_conta 0 1)" and now = clock_b] f
      registrar_delegates [where tx = "Deposito 1000 clock_a"
        and a = "ContaCorrente (nova_conta 0 1)" and now = clock_b] g z
    by (simp add: prod_eq_iff)
qed

text \<open>
  C7, as the code has it. \<open>adicionar_transacao\<close> appends an entry with the class name, the
  amount and the formatted timestamp of the transaction it is given. The transaction it
  is given is the one that \<open>depositar\<close> or \<open>sacar\<close> constructs at that moment: when a
  transaction is registered and accepted, the entry appended carries its class name and
  its amount, and the clock reading of the call, formatted day-month-year
  hour:minute:second.
\<close>

theorem history_entry:
  "adicionar_transacao h t =
     h @ [\<lparr>e_tipo = class_name t, e_valor = valor t, e_data = strftime (data t)\<rparr>] \<and>
   (fst (registrar tx a now) = Inr () \<longrightarrow>
      historico_of (snd (registrar tx a now)) =
        historico_of a @
          [\<lparr>e_tipo = class_name tx, e_valor = valor tx, e_data = strftime now\<rparr>])"
  using registrar_effect [of tx a now "fst (registrar tx a now)" "snd (registrar tx a now)"]
  by (auto simp add: adicionar_transacao_def split: sum.splits)

theorem history_entry_witness:
  "fst (registrar (Saque 400 clock_a) (ContaCorrente ((nova_conta 0 1)\<lparr>saldo := 1000\<rparr>)) clock_b) =
     Inr () \<and>
   historico_of
     (snd (registrar (Saque 400 clock_a) (ContaCorrente ((nova_conta 0 1)\<lparr>saldo := 1000\<rparr>)) clock_b)) =
     [\<lparr>e_tipo = ''Saque'', e_valor = 400, e_data = ''05-01-2024 03:04:14''\<rparr>]"
proof -
  have ok: "fst (registrar (Saque 400 clock_a)
              (ContaCorrente ((nova_conta 0 1)\<lparr>saldo := 1000\<rparr>)) clock_b) = Inr ()"
    by (simp add: nova_conta_def ContaCorrente_init_def Conta_init_def Conta_sacar_def
        ContaCorrente_sacar_def ContaCorrente_depositar_def Conta_depositar_def Let_def)
  have fmt: "strftime clock_b = ''05-01-2024 03:04:14''"
    by code_simp
  have z: "historico_of (ContaCorrente ((nova_conta 0 1)\<lparr>saldo := 1000\<rparr>)) = []"
    by (simp add: nova_conta_def ContaCorrente_init_def Conta_init_def Conta_sacar_def
        ContaCorrente_sacar_def ContaCorrente_depositar_def Conta_depositar_def Let_def)
  show ?thesis
    using history_entry [where tx = "Saque 400 clock_a"
        and a = "ContaCorrente ((nova_conta 0 1)\<lparr>saldo := 1000\<rparr>)" and now = clock_b] ok fmt z
    by simp
qed

text \<open>
  The entry does not carry the timestamp of the transaction that was registered: a
  deposit constructed at one clock reading and registered five seconds later is recorded
  with the later reading.
\<close>

theorem history_entry_counterexample:
  "fst (registrar (Deposito 100 clock_a) (Conta (Conta_init 1 0)) clock_b) = Inr () \<and>
   e_data (last (historico_of
      (snd (registrar (Deposito 100 clock_a) (Conta (Conta_init 1 0)) clock_b)))) \<noteq>
     strftime (data (Deposito 100 clock_a))"
proof -
  have "strftime clock_b \<noteq> strftime clock_a" by code_simp
  then show ?thesis
    by (simp add: Conta_init_def Conta_depositar_def adicionar_transacao_def)
qed

section \<open>The CPF validator\<close>

lemma int_py_decimal: "is_decimal c \<Longrightarrow> int_py c = Inr (digit_value c)"
  by (simp add: is_decimal_def int_py_def digit_value_def Let_def)

lemma soma_loop_decimal:
  "\<forall>i \<in> set ixs. is_decimal (cpf ! i) \<Longrightarrow>
     soma_loop cpf w ixs acc =
       Inr (acc + sum_list (map (\<lambda>i. digit_value (cpf ! i) * (w - int i)) ixs))"
  by (induction ixs arbitrary: acc) (simp_all add: int_py_decimal)

lemma length_11:
  assumes "length xs = 11"
  shows "xs = [xs ! 0, xs ! 1, xs ! 2, xs ! 3, xs ! 4, xs ! 5, xs ! 6, xs ! 7, xs ! 8, xs ! 9, xs ! 10]"
proof (rule nth_equalityI)
  show "length xs = length [xs ! 0, xs ! 1, xs ! 2, xs ! 3, xs ! 4, xs ! 5, xs ! 6, xs ! 7, xs ! 8, xs ! 9, xs ! 10]"
    using assms by simp
next
  fix i assume "i < length xs"
  with assms have "i < 11" by simp
  then have "i = 0 \<or> i = 1 \<or> i = 2 \<or> i = 3 \<or> i = 4 \<or> i = 5 \<or> i = 6 \<or> i = 7 \<or> i = 8 \<or>
      i = 9 \<or> i = 10" by arith
  then show "xs ! i = [xs ! 0, xs ! 1, xs ! 2, xs ! 3, xs ! 4, xs ! 5, xs ! 6, xs ! 7, xs ! 8, xs ! 9, xs ! 10] ! i"
    by auto
qed

lemma upt9: "[0..<9] = [0, 1, 2, 3, 4, 5, 6, 7, 8]"
  by code_simp

lemma upt10: "[0..<10] = [0, 1, 2, 3, 4, 5, 6, 7, 8, 9]"
  by code_simp

lemma first_sum:
  assumes "length ds = 11"
  shows "sum_list (map (\<lambda>i. ds ! i * (10 - int i)) [0..<9]) =
         weighted_sum (take 9 ds) [10, 9, 8, 7, 6, 5, 4, 3, 2]"
proof -
  obtain a b c d e f g h i j k where ds: "ds = [a,b,c,d,e,f,g,h,i,j,k]"
    using length_11 [OF assms] by blast
  show ?thesis
    by (simp add: ds upt9 weighted_sum_def)
qed

lemma second_sum:
  assumes "length ds = 11"
  shows "sum_list (map (\<lambda>i. ds ! i * (11 - int i)) [0..<10]) =
         weighted_sum (take 10 ds) [11, 10, 9, 8, 7, 6, 5, 4, 3, 2]"
proof -
  obtain a b c d e f g h i j k where ds: "ds = [a,b,c,d,e,f,g,h,i,j,k]"
    using length_11 [OF assms] by blast
  show ?thesis
    by (simp add: ds upt10 weighted_sum_def)
qed

lemma digit_value_inj: "is_decimal a \<Longrightarrow> is_decimal b \<Longrightarrow> digit_value a = digit_value b \<Longrightarrow> a = b"
  by (simp add: digit_value_def is_decimal_def)


lemma isdigit_decimal: "is_decimal c \<Longrightarrow> isdigit c"
  by (simp add: is_decimal_def isdigit_def Let_def)

lemma soma_loop_weighted:
  assumes len: "length cpf = 11" and dec: "\<forall>c \<in> set cpf. is_decimal c"
  shows "soma_loop cpf 10 [0..<9] 0 =
           Inr (weighted_sum (take 9 (map digit_value cpf)) [10, 9, 8, 7, 6, 5, 4, 3, 2])"
    and "soma_loop cpf 11 [0..<10] 0 =
           Inr (weighted_sum (take 10 (map digit_value cpf)) [11, 10, 9, 8, 7, 6, 5, 4, 3, 2])"
proof -
  have nth_dec: "is_decimal (cpf ! i)" if "i < 11" for i
    using that len dec by (simp add: nth_mem)
  have len': "length (map digit_value cpf) = 11" using len by simp
  have "soma_loop cpf 10 [0..<9] 0 =
          Inr (0 + sum_list (map (\<lambda>i. digit_value (cpf ! i) * (10 - int i)) [0..<9]))"
    by (rule soma_loop_decimal) (simp add: nth_dec)
  also have "sum_list (map (\<lambda>i. digit_value (cpf ! i) * (10 - int i)) [0..<9]) =
             sum_list (map (\<lambda>i. map digit_value cpf ! i * (10 - int i)) [0..<9])"
    using len by (intro arg_cong [where f = sum_list] map_cong) simp_all
  finally show "soma_loop cpf 10 [0..<9] 0 =
           Inr (weighted_sum (take 9 (map digit_value cpf)) [10, 9, 8, 7, 6, 5, 4, 3, 2])"
    using first_sum [OF len'] by simp
  have "soma_loop cpf 11 [0..<10] 0 =
          Inr (0 + sum_list (map (\<lambda>i. digit_value (cpf ! i) * (11 - int i)) [0..<10]))"
    by (rule soma_loop_decimal) (simp add: nth_dec)
  also have "sum_list (map (\<lambda>i. digit_value (cpf ! i) * (11 - int i)) [0..<10]) =
             sum_list (map (\<lambda>i. map digit_value cpf ! i * (11 - int i)) [0..<10])"
    using len by (intro arg_cong [where f = sum_list] map_cong) simp_all
  finally show "soma_loop cpf 11 [0..<10] 0 =
           Inr (weighted_sum (take 10 (map digit_value cpf)) [11, 10, 9, 8, 7, 6, 5, 4, 3, 2])"
    using second_sum [OF len'] by simp
qed

lemma identical_digits:
  assumes len: "length cpf = 11" and dec: "\<forall>c \<in> set cpf. is_decimal c"
  shows "cpf = replicate 11 (cpf ! 0) \<longleftrightarrow>
         map digit_value cpf = replicate 11 (map digit_value cpf ! 0)"
proof
  assume "cpf = replicate 11 (cpf ! 0)"
  then have "map digit_value cpf = map digit_value (replicate 11 (cpf ! 0))" by simp
  then show "map digit_value cpf = replicate 11 (map digit_value cpf ! 0)"
    using len by simp
next
  assume "map digit_value cpf = replicate 11 (map digit_value cpf ! 0)"
  then have eq: "map digit_value cpf = map digit_value (replicate 11 (cpf ! 0))"
    using len by simp
  have "cpf ! 0 \<in> set cpf" using len by (simp add: nth_mem)
  then have "inj_on digit_value (set cpf \<union> set (replicate 11 (cpf ! 0)))"
    using dec by (auto intro!: inj_onI digit_value_inj)
  from inj_on_map_eq_map [OF this] eq show "cpf = replicate 11 (cpf ! 0)" by blast
qed

lemma validar_cpf_decimal:
  assumes len: "length cpf = 11" and dec: "\<forall>c \<in> set cpf. is_decimal c"
    and filt: "filter isdigit s = cpf"
  shows "validar_cpf s =
     Inr (map digit_value cpf \<noteq> replicate 11 (map digit_value cpf ! 0) \<and>
          expected_digit (weighted_sum (take 9 (map digit_value cpf)) [10, 9, 8, 7, 6, 5, 4, 3, 2]) =
            map digit_value cpf ! 9 \<and>
          expected_digit (weighted_sum (take 10 (map digit_value cpf)) [11, 10, 9, 8, 7, 6, 5, 4, 3, 2]) =
            map digit_value cpf ! 10)"
proof -
  have d9: "int_py (cpf ! 9) = Inr (map digit_value cpf ! 9)"
    using len dec by (simp add: int_py_decimal nth_mem)
  have d10: "int_py (cpf ! 10) = Inr (map digit_value cpf ! 10)"
    using len dec by (simp add: int_py_decimal nth_mem)
  show ?thesis
    unfolding validar_cpf_def filt Let_def
    by (simp only: soma_loop_weighted [OF len dec] d9 d10 identical_digits [OF len dec] len
        expected_digit_def)
       (simp add: Let_def)
qed

text \<open>
  On a candidate whose characters accepted by \<open>str.isdigit\<close> are all decimal digits, in
  particular on every ASCII string, \<open>validar_cpf\<close> returns what the specification's
  algorithm returns.
\<close>

lemma validar_cpf_refines:
  assumes "\<forall>c \<in> set s. isdigit c \<longrightarrow> is_decimal c"
  shows "validar_cpf s = Inr (validate_spec s)"
proof -
  have filt: "filter isdigit s = filter is_decimal s"
    using assms by (intro filter_cong) (auto dest: isdigit_decimal)
  have dec: "\<forall>c \<in> set (filter is_decimal s). is_decimal c" by simp
  show ?thesis
  proof (cases "length (filter is_decimal s) = 11")
    case True
    show ?thesis
      using validar_cpf_decimal [OF True dec filt] True
      by (simp add: validate_spec_def Let_def)
  next
    case False
    then show ?thesis
      by (simp add: validar_cpf_def validate_spec_def filt Let_def)
  qed
qed

lemma validar_cpf_examples:
  "validar_cpf ''11111111111'' = Inr False"
  "validar_cpf ''52998224725'' = Inr True"
  "validar_cpf ''529.982.247-25'' = Inr True"
  by code_simp+

text \<open>
  C6. The validator is to return a truth value for every candidate: false unless the
  decimal digits left after stripping are eleven, not all equal, and pass both check
  digits. On the candidate made of the superscript two (U+00B2) followed by \<open>2998224725\<close>
  the code does not return: \<open>str.isdigit\<close> keeps the superscript, the eleven characters
  pass the length and the repetition tests, and \<open>int\<close> raises \<open>ValueError\<close> on the first
  character. The specification's algorithm strips the superscript and answers false.
\<close>

theorem validar_cpf_raises:
  "validar_cpf (CHR 0xB2 # ''2998224725'') = Inl ValueError \<and>
   validate_spec (CHR 0xB2 # ''2998224725'') = False"
  by code_simp

end
